theory Spec2Isabelle
  imports Main
begin

section \<open>JavaScript values\<close>

text \<open>
  The components read untyped values: the body of the service's answer, and whatever
  its fields hold. A value is modelled as the engine has it after \<^verbatim>\<open>JSON.parse\<close>, with
  \<^verbatim>\<open>undefined\<close> added for absent fields. An object is the list of its property
  definitions in the order they were made; a later definition of a key replaces the value
  and keeps the key's place. Strings are lists of code units below 256. Numbers are
  IEEE doubles in the engine; they stay abstract here (type \<open>'n\<close>), and the operations
  the components apply to them are passed in as a record. The record also holds what
  the built-in prototypes contribute to a cell of the table (\<open>inheritedText\<close>, explained
  with the cell).
\<close>

datatype 'n jsval =
    JUndefined
  | JNull
  | JBool bool
  | JNum 'n
  | JStr string
  | JArr "'n jsval list"
  | JObj "(string \<times> 'n jsval) list"

datatype error = TypeError

record 'n engine =
  numOfNat :: "nat \<Rightarrow> 'n"
  numIsZero :: "'n \<Rightarrow> bool"
  numIsNaN :: "'n \<Rightarrow> bool"
  numIsFinite :: "'n \<Rightarrow> bool"
  numGtZero :: "'n \<Rightarrow> bool"
  numToString :: "'n \<Rightarrow> string"
  stringToNumber :: "string \<Rightarrow> 'n"
  inheritedText :: "'n jsval \<Rightarrow> string \<Rightarrow> string option"

text \<open>ToBoolean: what \<^verbatim>\<open>!v\<close>, \<^verbatim>\<open>a && b\<close> and \<^verbatim>\<open>a || b\<close> test.\<close>

fun truthy :: "'n engine \<Rightarrow> 'n jsval \<Rightarrow> bool" where
  "truthy ops JUndefined = False"
| "truthy ops JNull = False"
| "truthy ops (JBool b) = b"
| "truthy ops (JNum n) = (\<not> numIsZero ops n \<and> \<not> numIsNaN ops n)"
| "truthy ops (JStr s) = (s \<noteq> [])"
| "truthy ops (JArr xs) = True"
| "truthy ops (JObj kvs) = True"

fun nullish :: "'n jsval \<Rightarrow> bool" where
  "nullish JUndefined = True"
| "nullish JNull = True"
| "nullish v = False"

text \<open>\<^verbatim>\<open>typeof v === 'object'\<close> (true of \<^verbatim>\<open>null\<close> as well).\<close>

fun typeofObject :: "'n jsval \<Rightarrow> bool" where
  "typeofObject JNull = True"
| "typeofObject (JArr xs) = True"
| "typeofObject (JObj kvs) = True"
| "typeofObject v = False"

subsection \<open>Decimal numerals and array indices\<close>

fun decimal :: "nat \<Rightarrow> string" where
  "decimal n =
     (if n < 10 then [''0123456789'' ! n]
      else decimal (n div 10) @ [''0123456789'' ! (n mod 10)])"

definition digitVal :: "char \<Rightarrow> nat option" where
  "digitVal c = map_of (zip ''0123456789'' [0, 1, 2, 3, 4, 5, 6, 7, 8, 9]) c"

fun digitsVal :: "nat \<Rightarrow> string \<Rightarrow> nat option" where
  "digitsVal acc [] = Some acc"
| "digitsVal acc (c # cs) =
     (case digitVal c of None \<Rightarrow> None | Some d \<Rightarrow> digitsVal (10 * acc + d) cs)"

text \<open>
  An array index is a key that is the canonical decimal numeral of an integer from 0 to
  \<open>2^32 - 2\<close>: no sign, no leading zero.
\<close>

definition arrayIndex :: "string \<Rightarrow> nat option" where
  "arrayIndex k =
     (if k = [] \<or> (hd k = CHR ''0'' \<and> k \<noteq> ''0'') then None
      else case digitsVal 0 k of
             None \<Rightarrow> None
           | Some i \<Rightarrow> if i \<le> 4294967294 then Some i else None)"

subsection \<open>Property reads\<close>

text \<open>
  The own property \<open>k\<close> of a value that is not \<^verbatim>\<open>null\<close> or \<^verbatim>\<open>undefined\<close>. An
  array and a string have their elements and \<^verbatim>\<open>length\<close>; a number or boolean has
  none. A read \<^verbatim>\<open>v.k\<close> gives the own property when there is one and otherwise what
  the built-in prototypes hold under \<open>k\<close>. The names the components read by a fixed
  name (\<^verbatim>\<open>chart_data\<close>, \<^verbatim>\<open>data\<close>, \<^verbatim>\<open>labels\<close>, \<^verbatim>\<open>field\<close>, \<^verbatim>\<open>response\<close>, ...) are no
  members of those prototypes, nor is an index, so these reads give the own property or
  \<^verbatim>\<open>undefined\<close>. The one read whose key comes from the data is \<^verbatim>\<open>row[columnKey]\<close>; it
  is modelled with the prototypes, in \<open>bodyCell\<close>.
\<close>

definition lookup :: "(string \<times> 'n jsval) list \<Rightarrow> string \<Rightarrow> 'n jsval" where
  "lookup kvs k = (case map_of (rev kvs) k of None \<Rightarrow> JUndefined | Some v \<Rightarrow> v)"

fun own :: "'n engine \<Rightarrow> 'n jsval \<Rightarrow> string \<Rightarrow> 'n jsval" where
  "own ops (JObj kvs) k = lookup kvs k"
| "own ops (JArr xs) k =
     (if k = ''length'' then JNum (numOfNat ops (length xs))
      else case arrayIndex k of
             None \<Rightarrow> JUndefined
           | Some i \<Rightarrow> if i < length xs then xs ! i else JUndefined)"
| "own ops (JStr s) k =
     (if k = ''length'' then JNum (numOfNat ops (length s))
      else case arrayIndex k of
             None \<Rightarrow> JUndefined
           | Some i \<Rightarrow> if i < length s then JStr [s ! i] else JUndefined)"
| "own ops v k = JUndefined"

text \<open>Whether \<open>k\<close> is an own property.\<close>

fun hasOwn :: "'n jsval \<Rightarrow> string \<Rightarrow> bool" where
  "hasOwn (JObj kvs) k = (k \<in> set (map fst kvs))"
| "hasOwn (JArr xs) k =
     (k = ''length'' \<or> (case arrayIndex k of None \<Rightarrow> False | Some i \<Rightarrow> i < length xs))"
| "hasOwn (JStr s) k =
     (k = ''length'' \<or> (case arrayIndex k of None \<Rightarrow> False | Some i \<Rightarrow> i < length s))"
| "hasOwn v k = False"

text \<open>\<^verbatim>\<open>v.k\<close>: reading a property of \<^verbatim>\<open>null\<close> or \<^verbatim>\<open>undefined\<close> throws.\<close>

definition getP :: "'n engine \<Rightarrow> 'n jsval \<Rightarrow> string \<Rightarrow> error + 'n jsval" where
  "getP ops v k = (if nullish v then Inl TypeError else Inr (own ops v k))"

text \<open>\<^verbatim>\<open>v?.k\<close>: \<^verbatim>\<open>undefined\<close> where \<^verbatim>\<open>v.k\<close> would throw.\<close>

definition optP :: "'n engine \<Rightarrow> 'n jsval \<Rightarrow> string \<Rightarrow> 'n jsval" where
  "optP ops v k = (if nullish v then JUndefined else own ops v k)"

text \<open>Sequencing of computations that may throw.\<close>

definition bindE :: "error + 'a \<Rightarrow> ('a \<Rightarrow> error + 'b) \<Rightarrow> error + 'b" where
  "bindE m f = (case m of Inl e \<Rightarrow> Inl e | Inr x \<Rightarrow> f x)"

subsection \<open>Own keys, string forms and JSON text\<close>

text \<open>
  The own keys of an object, as \<^verbatim>\<open>Object.keys\<close> and \<^verbatim>\<open>JSON.stringify\<close> list them: the
  array indices in ascending numeric order, then the other keys in the order of their
  first definition.
\<close>

definition firstSeen :: "string list \<Rightarrow> string list" where
  "firstSeen ks = rev (remdups (rev ks))"

definition ownKeys :: "(string \<times> 'n jsval) list \<Rightarrow> string list" where
  "ownKeys kvs =
     (let ks = firstSeen (map fst kvs)
      in sort_key (\<lambda>k. case arrayIndex k of None \<Rightarrow> 0 | Some i \<Rightarrow> i)
           (filter (\<lambda>k. arrayIndex k \<noteq> None) ks)
         @ filter (\<lambda>k. arrayIndex k = None) ks)"

text \<open>\<^verbatim>\<open>Object.keys(v)\<close>\<close>

fun objectKeys :: "'n jsval \<Rightarrow> error + string list" where
  "objectKeys JUndefined = Inl TypeError"
| "objectKeys JNull = Inl TypeError"
| "objectKeys (JObj kvs) = Inr (ownKeys kvs)"
| "objectKeys (JArr xs) = Inr (map decimal [0..<length xs])"
| "objectKeys (JStr s) = Inr (map decimal [0..<length s])"
| "objectKeys v = Inr []"

text \<open>
  ToString, which \<^verbatim>\<open>v.toString()\<close> on a primitive and the conversion of a property key
  both compute. An array joins its elements with commas, \<^verbatim>\<open>null\<close> and \<^verbatim>\<open>undefined\<close>
  giving the empty string. A plain object gives \<^verbatim>\<open>[object Object]\<close>, unless an own
  property \<^verbatim>\<open>toString\<close> hides the inherited method; that property is not callable and
  the conversion throws.
\<close>

fun toStringV :: "'n engine \<Rightarrow> 'n jsval \<Rightarrow> error + string"
  and joinV :: "'n engine \<Rightarrow> 'n jsval list \<Rightarrow> error + string" where
  "toStringV ops JUndefined = Inr ''undefined''"
| "toStringV ops JNull = Inr ''null''"
| "toStringV ops (JBool b) = Inr (if b then ''true'' else ''false'')"
| "toStringV ops (JNum n) = Inr (numToString ops n)"
| "toStringV ops (JStr s) = Inr s"
| "toStringV ops (JArr xs) = joinV ops xs"
| "toStringV ops (JObj kvs) =
     (if ''toString'' \<in> set (map fst kvs) then Inl TypeError else Inr ''[object Object]'')"
| "joinV ops [] = Inr []"
| "joinV ops (x # xs) =
     bindE (if nullish x then Inr [] else toStringV ops x) (\<lambda>a.
       if xs = [] then Inr a
       else bindE (joinV ops xs) (\<lambda>b. Inr (a @ '','' @ b)))"

text \<open>
  \<^verbatim>\<open>JSON.stringify(v)\<close> without indentation; \<open>None\<close> is \<^verbatim>\<open>undefined\<close>. An
  \<^verbatim>\<open>undefined\<close> array element is written \<^verbatim>\<open>null\<close>, an \<^verbatim>\<open>undefined\<close> property is left
  out.
\<close>

definition escapeChar :: "char \<Rightarrow> string" where
  "escapeChar c =
     (if c = CHR 0x22 then [CHR 0x5C, CHR 0x22]
      else if c = CHR 0x5C then [CHR 0x5C, CHR 0x5C]
      else if c = CHR 0x08 then [CHR 0x5C, CHR ''b'']
      else if c = CHR 0x0C then [CHR 0x5C, CHR ''f'']
      else if c = CHR 0x0A then [CHR 0x5C, CHR ''n'']
      else if c = CHR 0x0D then [CHR 0x5C, CHR ''r'']
      else if c = CHR 0x09 then [CHR 0x5C, CHR ''t'']
      else if (of_char c :: nat) < 32
        then [CHR 0x5C] @ ''u00'' @ [''0123456789abcdef'' ! (of_char c div 16),
                                     ''0123456789abcdef'' ! (of_char c mod 16)]
      else [c])"

definition quoteJSON :: "string \<Rightarrow> string" where
  "quoteJSON s = [CHR 0x22] @ concat (map escapeChar s) @ [CHR 0x22]"

fun commaJoin :: "string list \<Rightarrow> string" where
  "commaJoin [] = []"
| "commaJoin [s] = s"
| "commaJoin (s # t # ts) = s @ '','' @ commaJoin (t # ts)"

lemma set_ownKeys: "set (ownKeys kvs) = fst ` set kvs"
  by (auto simp: ownKeys_def firstSeen_def Let_def)

lemma size_lookup: "k \<in> set (ownKeys kvs) \<Longrightarrow> size (lookup kvs k) < size (JObj kvs)"
proof -
  assume k: "k \<in> set (ownKeys kvs)"
  have mem: "v \<in> snd ` set kvs \<Longrightarrow> size v < size (JObj kvs)" for v
    by (induction kvs) force+
  show ?thesis
  proof (cases "map_of (rev kvs) k")
    case None
    then have "k \<notin> fst ` set (rev kvs)" by (simp add: map_of_eq_None_iff)
    with k show ?thesis by (simp add: set_ownKeys)
  next
    case (Some v)
    then have "(k, v) \<in> set (rev kvs)" by (rule map_of_SomeD)
    then have "v \<in> snd ` set kvs" by force
    with mem Some show ?thesis by (simp add: lookup_def)
  qed
qed

function stringify :: "'n engine \<Rightarrow> 'n jsval \<Rightarrow> string option" where
  "stringify ops JUndefined = None"
| "stringify ops JNull = Some ''null''"
| "stringify ops (JBool b) = Some (if b then ''true'' else ''false'')"
| "stringify ops (JNum n) = Some (if numIsFinite ops n then numToString ops n else ''null'')"
| "stringify ops (JStr s) = Some (quoteJSON s)"
| "stringify ops (JArr xs) =
     Some (''['' @ commaJoin (map (\<lambda>x. case stringify ops x of None \<Rightarrow> ''null'' | Some t \<Rightarrow> t) xs)
           @ '']'')"
| "stringify ops (JObj kvs) =
     Some (''{'' @ commaJoin
             (concat (map (\<lambda>k. case stringify ops (lookup kvs k) of
                                  None \<Rightarrow> []
                                | Some t \<Rightarrow> [quoteJSON k @ '':'' @ t])
                          (ownKeys kvs)))
           @ ''}'')"
  by pat_completeness auto
termination
proof (relation "measure (\<lambda>(ops, v). size v)")
  show "wf (measure (\<lambda>(ops :: 'n engine, v :: 'n jsval). size v))" by simp
next
  fix ops :: "'n engine" and xs :: "'n jsval list" and x
  assume "x \<in> set xs"
  then have "size x < size (JArr xs)" by (induction xs) auto
  then show "((ops, x), (ops, JArr xs)) \<in> measure (\<lambda>(ops, v). size v)" by simp
next
  fix ops :: "'n engine" and kvs :: "(string \<times> 'n jsval) list" and k
  assume "k \<in> set (ownKeys kvs)"
  then show "((ops, lookup kvs k), (ops, JObj kvs)) \<in> measure (\<lambda>(ops, v). size v)"
    using size_lookup [of k kvs] by simp
qed

subsection \<open>Tests on \<^verbatim>\<open>length\<close>\<close>

text \<open>
  \<^verbatim>\<open>v > 0\<close>: the operand is converted to a number. An object converts through its
  string form (which may throw), a string through the engine's numeric-literal parser.
\<close>

fun gtZero :: "'n engine \<Rightarrow> 'n jsval \<Rightarrow> error + bool" where
  "gtZero ops JUndefined = Inr False"
| "gtZero ops JNull = Inr False"
| "gtZero ops (JBool b) = Inr b"
| "gtZero ops (JNum n) = Inr (numGtZero ops n)"
| "gtZero ops (JStr s) = Inr (numGtZero ops (stringToNumber ops s))"
| "gtZero ops v = bindE (toStringV ops v) (\<lambda>s. Inr (numGtZero ops (stringToNumber ops s)))"

text \<open>\<^verbatim>\<open>v === 0\<close>.\<close>

fun strictEqZero :: "'n engine \<Rightarrow> 'n jsval \<Rightarrow> bool" where
  "strictEqZero ops (JNum n) = numIsZero ops n"
| "strictEqZero ops v = False"

text \<open>
  \<^verbatim>\<open>v.length === 0\<close> and \<^verbatim>\<open>v.length > 0\<close>. Reading \<^verbatim>\<open>length\<close> of \<^verbatim>\<open>null\<close> or
  \<^verbatim>\<open>undefined\<close> throws. The length of an array or string is its number of elements,
  compared as such; any other value has the \<^verbatim>\<open>length\<close> its own property of that name
  gives.
\<close>

fun lengthIsZero :: "'n engine \<Rightarrow> 'n jsval \<Rightarrow> error + bool" where
  "lengthIsZero ops JUndefined = Inl TypeError"
| "lengthIsZero ops JNull = Inl TypeError"
| "lengthIsZero ops (JArr xs) = Inr (length xs = 0)"
| "lengthIsZero ops (JStr s) = Inr (length s = 0)"
| "lengthIsZero ops v = Inr (strictEqZero ops (own ops v ''length''))"

fun lengthGtZero :: "'n engine \<Rightarrow> 'n jsval \<Rightarrow> error + bool" where
  "lengthGtZero ops JUndefined = Inl TypeError"
| "lengthGtZero ops JNull = Inl TypeError"
| "lengthGtZero ops (JArr xs) = Inr (length xs > 0)"
| "lengthGtZero ops (JStr s) = Inr (length s > 0)"
| "lengthGtZero ops v = gtZero ops (own ops v ''length'')"

section \<open>ChatInterface: the conversation and its one outstanding request\<close>

text \<open>
  The component's state is its three \<^verbatim>\<open>useState\<close> cells. \<^verbatim>\<open>handleSendMessage\<close> is an
  asynchronous function with one \<^verbatim>\<open>await\<close>: it is modelled as the step that runs when
  it is called and the step that runs when the awaited call has ended, each taking the
  state to the state after its updates. A call reads the state as it is when the call is
  made.

  A message is the object literal \<^verbatim>\<open>handleSendMessage\<close> builds; a field the literal
  does not set reads as \<^verbatim>\<open>undefined\<close>. \<^verbatim>\<open>new Date()\<close> is the clock's value, passed in.
\<close>

record 'n message =
  msgType :: string
  msgContent :: "'n jsval"
  msgData :: "'n jsval"
  msgVisualization :: "'n jsval"
  msgHasForecast :: "'n jsval"
  msgIsError :: "'n jsval"
  msgTimestamp :: nat

record 'n chat =
  messages :: "'n message list"
  inputMessage :: string
  isLoading :: bool

text \<open>The request \<^verbatim>\<open>axios.post(url, { message: inputMessage })\<close>.\<close>

record request =
  reqUrl :: string
  reqMessage :: string

text \<open>
  How the awaited call ends: the promise rejects (network error, status outside 2xx), or
  it fulfils with a response whose \<^verbatim>\<open>data\<close> is the given value.
\<close>

datatype 'n outcome = Rejected | Fulfilled "'n jsval"

text \<open>
  \<^verbatim>\<open>String.prototype.trim\<close> removes white space and line terminators at both ends;
  below 256 these are the seven code units listed.
\<close>

definition isWhiteSpace :: "char \<Rightarrow> bool" where
  "isWhiteSpace c =
     (c \<in> {CHR 0x09, CHR 0x0A, CHR 0x0B, CHR 0x0C, CHR 0x0D, CHR 0x20, CHR 0xA0})"

definition trim :: "string \<Rightarrow> string" where
  "trim s = rev (dropWhile isWhiteSpace (rev (dropWhile isWhiteSpace s)))"

definition userMessage :: "string \<Rightarrow> nat \<Rightarrow> 'n message" where
  "userMessage text now =
     \<lparr> msgType = ''user'', msgContent = JStr text, msgData = JUndefined,
       msgVisualization = JUndefined, msgHasForecast = JUndefined,
       msgIsError = JUndefined, msgTimestamp = now \<rparr>"

definition botMessage :: "'n engine \<Rightarrow> 'n jsval \<Rightarrow> nat \<Rightarrow> error + 'n message" where
  "botMessage ops body now =
     bindE (getP ops body ''response'') (\<lambda>c.
     bindE (getP ops body ''data'') (\<lambda>d.
     bindE (getP ops body ''visualization_type'') (\<lambda>v.
     bindE (getP ops body ''has_forecast'') (\<lambda>f.
       Inr \<lparr> msgType = ''bot'', msgContent = c, msgData = d,
             msgVisualization = v, msgHasForecast = f,
             msgIsError = JUndefined, msgTimestamp = now \<rparr>))))"

definition errorMessage :: "nat \<Rightarrow> 'n message" where
  "errorMessage now =
     \<lparr> msgType = ''bot'',
       msgContent = JStr ''Sorry, I encountered an error processing your request.'',
       msgData = JUndefined, msgVisualization = JUndefined,
       msgHasForecast = JUndefined, msgIsError = JBool True, msgTimestamp = now \<rparr>"

text \<open>
  \<^verbatim>\<open>handleSendMessage\<close> up to its \<^verbatim>\<open>await\<close>: the guard, the three state updates, and
  the request it issues (\<open>None\<close> when it returns at the guard).
\<close>

definition dispatch :: "'n chat \<Rightarrow> nat \<Rightarrow> 'n chat \<times> request option" where
  "dispatch st now =
     (if trim (inputMessage st) = [] \<or> isLoading st then (st, None)
      else (st\<lparr> messages := messages st @ [userMessage (inputMessage st) now],
                inputMessage := [],
                isLoading := True \<rparr>,
            Some \<lparr> reqUrl = ''http://localhost:8000/chat'',
                   reqMessage = inputMessage st \<rparr>))"

text \<open>
  \<^verbatim>\<open>handleSendMessage\<close> from the \<^verbatim>\<open>await\<close> on: the \<^verbatim>\<open>try\<close> body builds the bot
  message from the response, the \<^verbatim>\<open>catch\<close> block appends the apology for a rejected
  call and for anything the \<^verbatim>\<open>try\<close> body throws, and \<^verbatim>\<open>finally\<close> clears the flag.
\<close>

definition settle :: "'n engine \<Rightarrow> 'n chat \<Rightarrow> 'n outcome \<Rightarrow> nat \<Rightarrow> 'n chat" where
  "settle ops st out now =
     (let st' =
        (case out of
           Rejected \<Rightarrow> st\<lparr> messages := messages st @ [errorMessage now] \<rparr>
         | Fulfilled body \<Rightarrow>
             (case botMessage ops body now of
                Inr m \<Rightarrow> st\<lparr> messages := messages st @ [m] \<rparr>
              | Inl e \<Rightarrow> st\<lparr> messages := messages st @ [errorMessage now] \<rparr>))
      in st'\<lparr> isLoading := False \<rparr>)"

text \<open>
  The whole call: the two steps in sequence, with the outcome of the request between
  them. While the request is outstanding the guard turns every further call into a
  return, so no other message is appended in between.
\<close>

definition handleSendMessage ::
  "'n engine \<Rightarrow> 'n chat \<Rightarrow> nat \<Rightarrow> 'n outcome \<Rightarrow> nat \<Rightarrow> 'n chat \<times> request option" where
  "handleSendMessage ops st now out later =
     (case dispatch st now of
        (st', None) \<Rightarrow> (st', None)
      | (st', Some r) \<Rightarrow> (settle ops st' out later, Some r))"

section \<open>ChartRenderer\<close>

datatype chartKind = Line | Bar | Pie

text \<open>
  What \<^verbatim>\<open>renderChart\<close> returns: a \<^verbatim>\<open>Typography\<close> notice with its text; a chart with its
  \<^verbatim>\<open>labels\<close>, \<^verbatim>\<open>datasets\<close> and title; or a table with its header cells, its body rows
  (the text of each cell) and, when present, the total that the caption
  \<^verbatim>\<open>Showing 10 of {tableData.length} records\<close> shows. These are the values the
  component hands to the chart and table elements; how those draw them is not part of
  it.
\<close>

datatype 'n element =
    Typography string
  | Chart chartKind "'n jsval" "'n jsval" "'n jsval"
  | TableContainer "'n jsval list" "string list list" "nat option"

definition unableNotice :: string where
  "unableNotice =
     ''Unable to generate chart. Please try a different query or request the data in table format.''"

definition noDataNotice :: string where
  "noDataNotice = ''No data available for display''"

text \<open>\<^verbatim>\<open>a && b\<close> and \<^verbatim>\<open>a || b\<close>, where either side may throw.\<close>

definition andE :: "'n engine \<Rightarrow> error + 'n jsval \<Rightarrow> error + 'n jsval \<Rightarrow> error + 'n jsval" where
  "andE ops a b = bindE a (\<lambda>v. if truthy ops v then b else Inr v)"

definition orE :: "'n engine \<Rightarrow> error + 'n jsval \<Rightarrow> error + 'n jsval \<Rightarrow> error + 'n jsval" where
  "orE ops a b = bindE a (\<lambda>v. if truthy ops v then Inr v else b)"

text \<open>\<^verbatim>\<open>v.k1.k2...\<close>\<close>

fun path :: "'n engine \<Rightarrow> 'n jsval \<Rightarrow> string list \<Rightarrow> error + 'n jsval" where
  "path ops v [] = Inr v"
| "path ops v (k # ks) = bindE (getP ops v k) (\<lambda>w. path ops w ks)"

text \<open>\<^verbatim>\<open>xs.map(f)\<close> on an array, stopping at the first call that throws.\<close>

fun mapE :: "('a \<Rightarrow> error + 'b) \<Rightarrow> 'a list \<Rightarrow> error + 'b list" where
  "mapE f [] = Inr []"
| "mapE f (x # xs) = bindE (f x) (\<lambda>y. bindE (mapE f xs) (\<lambda>ys. Inr (y # ys)))"

definition hasChartData :: "'n engine \<Rightarrow> 'n jsval \<Rightarrow> error + 'n jsval" where
  "hasChartData ops data =
     andE ops (andE ops (andE ops
       (path ops data [''chart_data''])
       (path ops data [''chart_data'', ''data'']))
       (path ops data [''chart_data'', ''data'', ''labels'']))
       (path ops data [''chart_data'', ''data'', ''datasets''])"

text \<open>
  The three chart renderers differ in the component and the default title only:
  \<^verbatim>\<open>data.chart_data.options?.plugins?.title?.text || 'Trend Analysis'\<close>.
\<close>

definition chartTitle :: "chartKind \<Rightarrow> string" where
  "chartTitle kind =
     (case kind of Line \<Rightarrow> ''Trend Analysis'' | Bar \<Rightarrow> ''Comparison'' | Pie \<Rightarrow> ''Distribution'')"

definition renderChartOf :: "chartKind \<Rightarrow> 'n engine \<Rightarrow> 'n jsval \<Rightarrow> error + 'n element" where
  "renderChartOf kind ops data =
     bindE (path ops data [''chart_data'', ''data'', ''labels'']) (\<lambda>labels.
     bindE (path ops data [''chart_data'', ''data'', ''datasets'']) (\<lambda>datasets.
     bindE (path ops data [''chart_data'', ''options'']) (\<lambda>options.
       let text = optP ops (optP ops (optP ops options ''plugins'') ''title'') ''text''
       in Inr (Chart kind labels datasets
                 (if truthy ops text then text else JStr (chartTitle kind))))))"

definition renderLineChart :: "'n engine \<Rightarrow> 'n jsval \<Rightarrow> error + 'n element" where
  "renderLineChart = renderChartOf Line"

definition renderBarChart :: "'n engine \<Rightarrow> 'n jsval \<Rightarrow> error + 'n element" where
  "renderBarChart = renderChartOf Bar"

definition renderPieChart :: "'n engine \<Rightarrow> 'n jsval \<Rightarrow> error + 'n element" where
  "renderPieChart = renderChartOf Pie"

text \<open>\<^verbatim>\<open>data.chart_data?.data || data.data || []\<close>\<close>

definition tableDataOf :: "'n engine \<Rightarrow> 'n jsval \<Rightarrow> error + 'n jsval" where
  "tableDataOf ops data =
     orE ops (orE ops
       (bindE (getP ops data ''chart_data'') (\<lambda>cd. Inr (optP ops cd ''data'')))
       (getP ops data ''data''))
       (Inr (JArr []))"

text \<open>
  \<^verbatim>\<open>data.chart_data?.columns || (tableData.length > 0 ? Object.keys(tableData[0]) : [])\<close>
\<close>

definition columnsOf :: "'n engine \<Rightarrow> 'n jsval \<Rightarrow> 'n jsval \<Rightarrow> error + 'n jsval" where
  "columnsOf ops data tableData =
     orE ops
       (bindE (getP ops data ''chart_data'') (\<lambda>cd. Inr (optP ops cd ''columns'')))
       (bindE (lengthGtZero ops tableData) (\<lambda>positive.
          if positive
          then bindE (getP ops tableData ''0'') (\<lambda>first.
               bindE (objectKeys first) (\<lambda>ks. Inr (JArr (map JStr ks))))
          else Inr (JArr [])))"

text \<open>The header cell's child, \<^verbatim>\<open>column.headerName || column\<close>, after its key.\<close>

definition headerCell :: "'n engine \<Rightarrow> 'n jsval \<Rightarrow> error + 'n jsval" where
  "headerCell ops column =
     bindE (orE ops (getP ops column ''field'') (Inr column)) (\<lambda>key.
       orE ops (getP ops column ''headerName'') (Inr column))"

text \<open>
  The text of a body cell:
  \<^verbatim>\<open>typeof value === 'object' && value !== null ? JSON.stringify(value)
     : value != null ? value.toString() : ''\<close>.
  A child that is \<^verbatim>\<open>undefined\<close> shows no text.
\<close>

definition cellText :: "'n engine \<Rightarrow> 'n jsval \<Rightarrow> error + string" where
  "cellText ops value =
     (if typeofObject value \<and> value \<noteq> JNull
      then Inr (case stringify ops value of None \<Rightarrow> [] | Some s \<Rightarrow> s)
      else if \<not> nullish value then toStringV ops value
      else Inr [])"

text \<open>
  A body cell: \<^verbatim>\<open>const columnKey = column.field || column; const value = row[columnKey]\<close>
  and the text of \<open>value\<close>. The key is converted to a string. When the row has the
  key as an own property, \<open>value\<close> is that property. Otherwise \<open>value\<close> is what the
  built-in prototypes hold under the key: nothing for most keys, so that \<open>value\<close> is
  \<^verbatim>\<open>undefined\<close>; but under a name such as \<^verbatim>\<open>constructor\<close> or \<^verbatim>\<open>toString\<close> a built-in
  member, which is no JSON value. The text the cell's conditional gives for that member
  is the engine's, \<open>inheritedText ops row k\<close> (\<open>None\<close> when the prototypes hold nothing
  under \<open>k\<close>).
\<close>

definition bodyCell :: "'n engine \<Rightarrow> 'n jsval \<Rightarrow> 'n jsval \<Rightarrow> error + string" where
  "bodyCell ops row column =
     bindE (orE ops (getP ops column ''field'') (Inr column)) (\<lambda>columnKey.
     bindE (toStringV ops columnKey) (\<lambda>k.
       if nullish row then Inl TypeError
       else if hasOwn row k then cellText ops (own ops row k)
       else case inheritedText ops row k of
              None \<Rightarrow> cellText ops JUndefined
            | Some t \<Rightarrow> Inr t))"

text \<open>\<^verbatim>\<open>columns.map(...)\<close>: only an array has a \<^verbatim>\<open>map\<close> to call.\<close>

fun mapColumns :: "('n jsval \<Rightarrow> error + 'b) \<Rightarrow> 'n jsval \<Rightarrow> error + 'b list" where
  "mapColumns f (JArr cs) = mapE f cs"
| "mapColumns f v = Inl TypeError"

text \<open>
  \<^verbatim>\<open>tableData.slice(0, 10).map(...)\<close>: an array has both methods; a string has
  \<^verbatim>\<open>slice\<close> but its result has no \<^verbatim>\<open>map\<close>; any other value has no \<^verbatim>\<open>slice\<close>.
\<close>

fun bodyRows :: "'n engine \<Rightarrow> 'n jsval \<Rightarrow> 'n jsval \<Rightarrow> error + string list list" where
  "bodyRows ops columns (JArr rows) =
     mapE (\<lambda>row. mapColumns (bodyCell ops row) columns) (take 10 rows)"
| "bodyRows ops columns v = Inl TypeError"

text \<open>\<^verbatim>\<open>tableData.length > 10 && (...)\<close>, reached only when the body has been built.\<close>

fun caption :: "'n jsval \<Rightarrow> nat option" where
  "caption (JArr rows) = (if length rows > 10 then Some (length rows) else None)"
| "caption v = None"

definition renderTable :: "'n engine \<Rightarrow> 'n jsval \<Rightarrow> error + 'n element" where
  "renderTable ops data =
     bindE (tableDataOf ops data) (\<lambda>tableData.
     bindE (if \<not> truthy ops tableData then Inr True
            else lengthIsZero ops tableData) (\<lambda>empty.
       if empty then Inr (Typography noDataNotice)
       else bindE (columnsOf ops data tableData) (\<lambda>columns.
            bindE (mapColumns (headerCell ops) columns) (\<lambda>header.
            bindE (bodyRows ops columns tableData) (\<lambda>body.
              Inr (TableContainer header body (caption tableData)))))))"

text \<open>\<^verbatim>\<open>renderChart\<close>; \<open>h\<close> is the value of \<^verbatim>\<open>hasChartData\<close> it closes over.\<close>

definition renderChart ::
  "'n engine \<Rightarrow> 'n jsval \<Rightarrow> 'n jsval \<Rightarrow> 'n jsval \<Rightarrow> error + 'n element" where
  "renderChart ops data visualizationType h =
     (if \<not> truthy ops h
      then (if visualizationType = JStr ''table'' then renderTable ops data
            else Inr (Typography unableNotice))
      else if visualizationType = JStr ''line'' then renderLineChart ops data
      else if visualizationType = JStr ''bar'' then renderBarChart ops data
      else if visualizationType = JStr ''pie'' then renderPieChart ops data
      else if visualizationType = JStr ''table'' then renderTable ops data
      else renderTable ops data)"

text \<open>
  The panel \<^verbatim>\<open>ChartRenderer\<close> returns: its heading, what \<^verbatim>\<open>renderChart\<close> gave, and
  the value of \<^verbatim>\<open>hasForecast && data.forecast && (...)\<close>, which is either the falsy
  operand or the forecast line with its \<^verbatim>\<open>data.periods || 30\<close>.
\<close>

datatype 'n footer = Operand "'n jsval" | ForecastPeriod "'n jsval"

record 'n panel =
  heading :: string
  chart :: "'n element"
  forecast :: "'n footer"

definition ChartRenderer ::
  "'n engine \<Rightarrow> 'n jsval \<Rightarrow> 'n jsval \<Rightarrow> 'n jsval \<Rightarrow> error + 'n panel option" where
  "ChartRenderer ops data visualizationType hasForecast =
     (if \<not> truthy ops data then Inr None
      else bindE (hasChartData ops data) (\<lambda>h.
           bindE (renderChart ops data visualizationType h) (\<lambda>body.
           bindE (if \<not> truthy ops hasForecast then Inr (Operand hasForecast)
                  else bindE (getP ops data ''forecast'') (\<lambda>f.
                       if \<not> truthy ops f then Inr (Operand f)
                       else bindE (orE ops (getP ops data ''periods'')
                                           (Inr (JNum (numOfNat ops 30))))
                              (\<lambda>p. Inr (ForecastPeriod p)))) (\<lambda>foot.
             Inr (Some \<lparr> heading = (if truthy ops hasForecast then ''Forecast Results''
                                     else ''Data Visualization''),
                         chart = body, forecast = foot \<rparr>)))))"

text \<open>
  Whether \<^verbatim>\<open>ChatInterface\<close> mounts \<^verbatim>\<open>ChartRenderer\<close> under a message:
  \<^verbatim>\<open>message.type === 'bot' && message.data && message.visualization !== 'text'\<close>.
\<close>

definition mountsChart :: "'n engine \<Rightarrow> 'n message \<Rightarrow> bool" where
  "mountsChart ops m =
     (msgType m = ''bot'' \<and> truthy ops (msgData m) \<and> msgVisualization m \<noteq> JStr ''text'')"


section \<open>An instance of the engine's operations\<close>

text \<open>
  For evaluating the components on concrete values: the integers, with \<open>None\<close> for
  NaN. A string converts to a number when, trimmed, it is empty or an optionally
  signed decimal numeral. Rows of the examples are plain objects, and the inherited
  members listed are theirs.
\<close>

definition showInt :: "int \<Rightarrow> string" where
  "showInt i = (if i < 0 then ''-'' @ decimal (nat (- i)) else decimal (nat i))"

definition readInt :: "string \<Rightarrow> int option" where
  "readInt s =
     (case trim s of
        [] \<Rightarrow> Some 0
      | c # cs \<Rightarrow>
          if c = CHR ''-'' \<and> cs \<noteq> [] then map_option (\<lambda>n. - int n) (digitsVal 0 cs)
          else if c = CHR ''+'' \<and> cs \<noteq> [] then map_option int (digitsVal 0 cs)
          else map_option int (digitsVal 0 (c # cs)))"

text \<open>
  What a plain object inherits from \<^verbatim>\<open>Object.prototype\<close>, as the text of a cell: the
  source text of the built-in functions, and the JSON text \<^verbatim>\<open>{}\<close> of the prototype
  itself under \<^verbatim>\<open>__proto__\<close>.
\<close>

definition objectPrototypeText :: "string \<Rightarrow> string option" where
  "objectPrototypeText k =
     (if k = ''__proto__'' then Some ''{}''
      else if k = ''constructor'' then Some ''function Object() { [native code] }''
      else if k \<in> set [''toString'', ''toLocaleString'', ''valueOf'', ''hasOwnProperty'',
                        ''isPrototypeOf'', ''propertyIsEnumerable'', ''__defineGetter__'',
                        ''__defineSetter__'', ''__lookupGetter__'', ''__lookupSetter__'']
        then Some (''function '' @ k @ ''() { [native code] }'')
      else None)"

definition intOps :: "int option engine" where
  "intOps =
     \<lparr> numOfNat = (\<lambda>n. Some (int n)),
       numIsZero = (\<lambda>x. x = Some 0),
       numIsNaN = (\<lambda>x. x = None),
       numIsFinite = (\<lambda>x. x \<noteq> None),
       numGtZero = (\<lambda>x. case x of None \<Rightarrow> False | Some i \<Rightarrow> 0 < i),
       numToString = (\<lambda>x. case x of None \<Rightarrow> ''NaN'' | Some i \<Rightarrow> showInt i),
       stringToNumber = readInt,
       inheritedText = (\<lambda>v k. case v of JObj kvs \<Rightarrow> objectPrototypeText k | _ \<Rightarrow> None) \<rparr>"

section \<open>Example values\<close>

text \<open>A conversation with no message yet, the given text typed, and no request outstanding.\<close>

definition idleChat :: "string \<Rightarrow> 'n chat" where
  "idleChat text = \<lparr> messages = [], inputMessage = text, isLoading = False \<rparr>"

text \<open>A table payload of \<open>n\<close> equal rows, in the response's generic \<^verbatim>\<open>data\<close> field.\<close>

definition widgetRow :: "int option jsval" where
  "widgetRow = JObj [(''name'', JStr ''Widget''), (''qty'', JNum (Some 42))]"

definition widgets :: "nat \<Rightarrow> int option jsval" where
  "widgets n = JObj [(''data'', JArr (replicate n widgetRow))]"

text \<open>A chart payload that passes the check, and one whose \<^verbatim>\<open>datasets\<close> are missing.\<close>

definition chartPayload :: "int option jsval" where
  "chartPayload =
     JObj [(''chart_data'',
       JObj [(''data'',
         JObj [(''labels'', JArr [JStr ''Jan'', JStr ''Feb'']),
               (''datasets'',
                  JArr [JObj [(''label'', JStr ''Sales''),
                              (''data'', JArr [JNum (Some 1), JNum (Some 2)])]])])])]"

definition noDatasets :: "int option jsval" where
  "noDatasets =
     JObj [(''chart_data'', JObj [(''data'', JObj [(''labels'', JArr [JStr ''Jan''])])])]"

lemmas eval_defs =
  intOps_def showInt_def ownKeys_def firstSeen_def arrayIndex_def digitVal_def lookup_def
  quoteJSON_def escapeChar_def getP_def optP_def bindE_def andE_def orE_def
  tableDataOf_def columnsOf_def headerCell_def bodyCell_def cellText_def renderTable_def
  objectPrototypeText_def

section \<open>Properties of the conversation\<close>

lemma trim_Nil_iff: "trim s = [] \<longleftrightarrow> (\<forall>c \<in> set s. isWhiteSpace c)"
proof
  assume "trim s = []"
  then have all: "\<forall>c \<in> set (dropWhile isWhiteSpace s). isWhiteSpace c"
    by (simp add: trim_def)
  show "\<forall>c \<in> set s. isWhiteSpace c"
  proof (cases "dropWhile isWhiteSpace s")
    case Nil
    then show ?thesis by simp
  next
    case (Cons c cs)
    then have "\<not> isWhiteSpace c" using hd_dropWhile [of isWhiteSpace s] by simp
    with all Cons show ?thesis by simp
  qed
next
  assume "\<forall>c \<in> set s. isWhiteSpace c"
  then show "trim s = []" by (auto simp: trim_def dest: set_dropWhileD)
qed

text \<open>
  C1. When the input text is empty or consists of white space only, or a request is
  already outstanding (\<^verbatim>\<open>isLoading\<close>), \<^verbatim>\<open>handleSendMessage\<close> does nothing: the state
  it leaves is the state it was called in, so no message is appended, and it issues no
  request.
\<close>

theorem C1_submit_noop:
  assumes "(\<forall>c \<in> set (inputMessage st). isWhiteSpace c) \<or> isLoading st"
  shows "handleSendMessage ops st now out later = (st, None)"
  using assms by (auto simp: handleSendMessage_def dispatch_def trim_Nil_iff)

theorem C1_submit_noop_witness:
  "handleSendMessage intOps (idleChat [CHR 0x20, CHR 0x09, CHR 0x0A]) 0 Rejected 1
     = (idleChat [CHR 0x20, CHR 0x09, CHR 0x0A], None)
   \<and> handleSendMessage intOps ((idleChat ''top products?'')\<lparr> isLoading := True \<rparr>) 0 Rejected 1
     = ((idleChat ''top products?'')\<lparr> isLoading := True \<rparr>, None)"
proof -
  have blank: "(\<forall>c \<in> set (inputMessage (idleChat [CHR 0x20, CHR 0x09, CHR 0x0A] :: int option chat)).
                  isWhiteSpace c)
               \<or> isLoading (idleChat [CHR 0x20, CHR 0x09, CHR 0x0A] :: int option chat)"
    by (simp add: idleChat_def isWhiteSpace_def)
  have busy: "(\<forall>c \<in> set (inputMessage ((idleChat ''top products?'' :: int option chat)\<lparr> isLoading := True \<rparr>)).
                  isWhiteSpace c)
               \<or> isLoading ((idleChat ''top products?'' :: int option chat)\<lparr> isLoading := True \<rparr>)"
    by simp
  show ?thesis
    using C1_submit_noop [OF blank] C1_submit_noop [OF busy] by simp
qed

text \<open>
  C2. When a request is dispatched and the call is rejected, the conversation grows by
  exactly two messages, the user's and then one bot message flagged \<^verbatim>\<open>isError\<close> whose
  content is the fixed apology, and \<^verbatim>\<open>isLoading\<close> is false afterwards.
\<close>

theorem C2_failure_appends_apology:
  assumes "trim (inputMessage st) \<noteq> []" and "\<not> isLoading st"
  shows "messages (fst (handleSendMessage ops st now Rejected later))
           = messages st @ [userMessage (inputMessage st) now, errorMessage later]
         \<and> msgType (errorMessage later :: 'n message) = ''bot''
         \<and> msgIsError (errorMessage later :: 'n message) = JBool True
         \<and> msgContent (errorMessage later :: 'n message)
             = JStr ''Sorry, I encountered an error processing your request.''
         \<and> length (messages (fst (handleSendMessage ops st now Rejected later)))
             = length (messages st) + 2
         \<and> isLoading (fst (handleSendMessage ops st now Rejected later)) = False"
  using assms
  by (simp add: handleSendMessage_def dispatch_def settle_def errorMessage_def)

theorem C2_failure_appends_apology_witness:
  "messages (fst (handleSendMessage intOps (idleChat ''top products?'') 0 Rejected 1))
     = [userMessage ''top products?'' 0, errorMessage 1]
   \<and> isLoading (fst (handleSendMessage intOps (idleChat ''top products?'') 0 Rejected 1)) = False"
proof -
  have typed: "trim (inputMessage (idleChat ''top products?'' :: int option chat)) \<noteq> []"
    by (simp add: idleChat_def trim_def isWhiteSpace_def)
  have idle: "\<not> isLoading (idleChat ''top products?'' :: int option chat)"
    by (simp add: idleChat_def)
  show ?thesis
    using C2_failure_appends_apology [OF typed idle, of intOps 0 1]
    unfolding idleChat_def by auto
qed

text \<open>
  C3. Every dispatched request sets \<^verbatim>\<open>isLoading\<close>, and however the call ends
  (rejected, or fulfilled with any body) \<^verbatim>\<open>isLoading\<close> is false once it is settled.
\<close>

theorem C3_loading_cleared:
  assumes "trim (inputMessage st) \<noteq> []" and "\<not> isLoading st"
  shows "snd (dispatch st now) \<noteq> None
         \<and> isLoading (fst (dispatch st now)) = True
         \<and> isLoading (settle ops (fst (dispatch st now)) out later) = False
         \<and> isLoading (fst (handleSendMessage ops st now out later)) = False"
  using assms
  by (simp add: handleSendMessage_def dispatch_def settle_def Let_def)

theorem C3_loading_cleared_witness:
  "isLoading (fst (handleSendMessage intOps (idleChat ''top products?'') 0 Rejected 1)) = False
   \<and> isLoading (fst (handleSendMessage intOps (idleChat ''top products?'') 0
                       (Fulfilled (JObj [(''response'', JStr ''Here are your top products'')])) 1))
       = False"
proof -
  have typed: "trim (inputMessage (idleChat ''top products?'' :: int option chat)) \<noteq> []"
    by (simp add: idleChat_def trim_def isWhiteSpace_def)
  have idle: "\<not> isLoading (idleChat ''top products?'' :: int option chat)"
    by (simp add: idleChat_def)
  show ?thesis
    using C3_loading_cleared [OF typed idle, of 0 intOps Rejected 1]
      C3_loading_cleared [OF typed idle, of 0 intOps
        "Fulfilled (JObj [(''response'', JStr ''Here are your top products'')])" 1]
    by simp
qed


text \<open>
  A response whose body is an object without \<^verbatim>\<open>response\<close> is not treated as a failure:
  the message appended is not the apology and carries no \<^verbatim>\<open>isError\<close> flag.
\<close>

theorem C9_missing_response_counterexample:
  "own intOps (JObj [(''data'', JArr [])]) ''response'' = JUndefined
   \<and> last (messages (fst (handleSendMessage intOps (idleChat ''top products?'') 0
                            (Fulfilled (JObj [(''data'', JArr [])])) 1)))
       \<noteq> errorMessage 1
   \<and> msgIsError (last (messages (fst (handleSendMessage intOps (idleChat ''top products?'') 0
                            (Fulfilled (JObj [(''data'', JArr [])])) 1))))
       \<noteq> JBool True"
  by (simp add: handleSendMessage_def dispatch_def settle_def botMessage_def getP_def
      bindE_def errorMessage_def idleChat_def trim_def isWhiteSpace_def lookup_def)

text \<open>
  C9. A fulfilled call is treated as a failure exactly when its body is \<^verbatim>\<open>null\<close> or
  \<^verbatim>\<open>undefined\<close>: reading \<^verbatim>\<open>response.data.response\<close> then throws and the apology is
  appended. For any other body an ordinary bot message is appended, its content the
  body's own \<^verbatim>\<open>response\<close>, which is \<^verbatim>\<open>undefined\<close> when an object body lacks the field,
  and its \<^verbatim>\<open>isError\<close> unset.
\<close>

theorem C9_failure_only_on_nullish_body:
  assumes "trim (inputMessage st) \<noteq> []" and "\<not> isLoading st"
  shows "(nullish body \<longrightarrow>
            messages (fst (handleSendMessage ops st now (Fulfilled body) later))
              = messages st @ [userMessage (inputMessage st) now, errorMessage later])
         \<and> (\<not> nullish body \<longrightarrow>
            messages (fst (handleSendMessage ops st now (Fulfilled body) later))
              = messages st @ [userMessage (inputMessage st) now,
                  \<lparr> msgType = ''bot'',
                    msgContent = own ops body ''response'',
                    msgData = own ops body ''data'',
                    msgVisualization = own ops body ''visualization_type'',
                    msgHasForecast = own ops body ''has_forecast'',
                    msgIsError = JUndefined,
                    msgTimestamp = later \<rparr>])
         \<and> (\<forall>kvs. body = JObj kvs \<and> ''response'' \<notin> fst ` set kvs \<longrightarrow>
                own ops body ''response'' = JUndefined)"
proof (intro conjI impI allI)
  assume "nullish body"
  with assms show "messages (fst (handleSendMessage ops st now (Fulfilled body) later))
      = messages st @ [userMessage (inputMessage st) now, errorMessage later]"
    by (simp add: handleSendMessage_def dispatch_def settle_def botMessage_def getP_def bindE_def)
next
  assume "\<not> nullish body"
  with assms show "messages (fst (handleSendMessage ops st now (Fulfilled body) later))
      = messages st @ [userMessage (inputMessage st) now,
                  \<lparr> msgType = ''bot'',
                    msgContent = own ops body ''response'',
                    msgData = own ops body ''data'',
                    msgVisualization = own ops body ''visualization_type'',
                    msgHasForecast = own ops body ''has_forecast'',
                    msgIsError = JUndefined,
                    msgTimestamp = later \<rparr>]"
    by (simp add: handleSendMessage_def dispatch_def settle_def botMessage_def getP_def bindE_def)
next
  fix kvs
  assume "body = JObj kvs \<and> ''response'' \<notin> fst ` set kvs"
  then have "map_of (rev kvs) ''response'' = None"
    by (simp add: map_of_eq_None_iff)
  with \<open>body = JObj kvs \<and> _\<close> show "own ops body ''response'' = JUndefined"
    by (simp add: lookup_def)
qed

theorem C9_failure_only_on_nullish_body_witness:
  "messages (fst (handleSendMessage intOps (idleChat ''top products?'') 0 (Fulfilled JNull) 1))
     = [userMessage ''top products?'' 0, errorMessage 1]
   \<and> msgContent (last (messages (fst (handleSendMessage intOps (idleChat ''top products?'') 0
                          (Fulfilled (JObj [(''data'', JArr [])])) 1))))
      = JUndefined"
proof -
  have typed: "trim (inputMessage (idleChat ''top products?'' :: int option chat)) \<noteq> []"
    by (simp add: idleChat_def trim_def isWhiteSpace_def)
  have idle: "\<not> isLoading (idleChat ''top products?'' :: int option chat)"
    by (simp add: idleChat_def)
  have a: "messages (fst (handleSendMessage intOps (idleChat ''top products?'') 0 (Fulfilled JNull) 1))
     = [userMessage ''top products?'' 0, errorMessage 1]"
    using C9_failure_only_on_nullish_body [OF typed idle, of JNull intOps 0 1]
    unfolding idleChat_def by auto
  have b: "msgContent (last (messages (fst (handleSendMessage intOps (idleChat ''top products?'') 0
                          (Fulfilled (JObj [(''data'', JArr [])])) 1))))
      = JUndefined"
    using C9_failure_only_on_nullish_body [OF typed idle, of "JObj [(''data'', JArr [])]" intOps 0 1]
    unfolding idleChat_def by (auto simp: lookup_def)
  from a b show ?thesis by blast
qed

subsection \<open>Where no chart is drawn\<close>

text \<open>
  C10. With \<^verbatim>\<open>data\<close> \<^verbatim>\<open>null\<close> or \<^verbatim>\<open>undefined\<close>, \<^verbatim>\<open>ChartRenderer\<close> returns
  \<^verbatim>\<open>null\<close>: no panel, no heading, no notice. \<^verbatim>\<open>ChatInterface\<close> does not mount it
  under a message whose data is absent or whose visualization type is \<^verbatim>\<open>text\<close>.
\<close>

theorem C10_nothing_without_data:
  "(nullish data \<longrightarrow> ChartRenderer ops data visualizationType hasForecast = Inr None)
   \<and> (nullish (msgData m) \<or> msgVisualization m = JStr ''text'' \<longrightarrow> \<not> mountsChart ops m)"
  by (cases data; cases "msgData m") (auto simp: ChartRenderer_def mountsChart_def)

theorem C10_nothing_without_data_witness:
  "ChartRenderer intOps JNull (JStr ''bar'') (JBool True) = Inr None
   \<and> \<not> mountsChart intOps (errorMessage 1)
   \<and> \<not> mountsChart intOps
         \<lparr> msgType = ''bot'', msgContent = JStr ''Sales are up.'',
           msgData = JObj [(''data'', JArr [])], msgVisualization = JStr ''text'',
           msgHasForecast = JBool False, msgIsError = JUndefined, msgTimestamp = 1 \<rparr>"
  using C10_nothing_without_data [of JNull intOps "JStr ''bar''" "JBool True" "errorMessage 1"]
    C10_nothing_without_data [of JNull intOps "JStr ''bar''" "JBool True"
       "\<lparr> msgType = ''bot'', msgContent = JStr ''Sales are up.'',
           msgData = JObj [(''data'', JArr [])], msgVisualization = JStr ''text'',
           msgHasForecast = JBool False, msgIsError = JUndefined, msgTimestamp = 1 \<rparr>"]
  by (simp add: errorMessage_def)

section \<open>Properties of the table\<close>

lemma bindE_Inr: "bindE (Inr x) f = f x"
  by (simp add: bindE_def)

lemma bindE_Inl: "bindE (Inl e) f = Inl e"
  by (simp add: bindE_def)

lemma bindE_eq_Inr: "bindE m f = Inr y \<longleftrightarrow> (\<exists>x. m = Inr x \<and> f x = Inr y)"
  by (cases m) (simp_all add: bindE_def)

lemma mapE_Inr:
  "mapE f xs = Inr ys \<Longrightarrow> length ys = length xs \<and> (\<forall>i < length xs. f (xs ! i) = Inr (ys ! i))"
proof (induction xs arbitrary: ys)
  case Nil
  then show ?case by simp
next
  case (Cons x xs)
  from Cons.prems obtain y zs where y: "f x = Inr y" and zs: "mapE f xs = Inr zs"
    and ys: "ys = y # zs"
    by (auto simp: bindE_eq_Inr)
  from Cons.IH [OF zs] have len: "length zs = length xs"
    and nth: "\<forall>i < length xs. f (xs ! i) = Inr (zs ! i)" by simp_all
  show ?case
  proof (intro conjI allI impI)
    show "length ys = length (x # xs)" using ys len by simp
  next
    fix i assume "i < length (x # xs)"
    then show "f ((x # xs) ! i) = Inr (ys ! i)"
      using y nth ys by (cases i) simp_all
  qed
qed

lemma mapE_total:
  "(\<forall>x \<in> set xs. \<exists>y. f x = Inr y) \<Longrightarrow> \<exists>ys. mapE f xs = Inr ys"
  by (induction xs) (auto simp: bindE_Inr)

lemma cellText_total: "\<exists>s. cellText ops v = Inr s"
  by (cases v) (simp_all add: cellText_def)

text \<open>
  C8. The text of a table cell: an object or array is written as its JSON text,
  \<^verbatim>\<open>null\<close> and \<^verbatim>\<open>undefined\<close> give the empty string, and a string, number or boolean
  gives its string form.
\<close>

theorem C8_cell_text:
  "cellText ops (JObj kvs)
     = Inr (''{'' @ commaJoin (concat (map (\<lambda>k. case stringify ops (lookup kvs k) of
                                               None \<Rightarrow> []
                                             | Some t \<Rightarrow> [quoteJSON k @ '':'' @ t])
                                       (ownKeys kvs))) @ ''}'')
   \<and> cellText ops (JArr xs)
     = Inr (''['' @ commaJoin (map (\<lambda>x. case stringify ops x of None \<Rightarrow> ''null'' | Some t \<Rightarrow> t) xs)
            @ '']'')
   \<and> cellText ops JNull = Inr []
   \<and> cellText ops JUndefined = Inr []
   \<and> cellText ops (JStr s) = Inr s
   \<and> cellText ops (JNum n) = Inr (numToString ops n)
   \<and> cellText ops (JBool b) = Inr (if b then ''true'' else ''false'')"
  by (simp add: cellText_def)

theorem C8_cell_text_witness:
  "cellText intOps (JObj [(''name'', JStr ''Widget''), (''qty'', JNum (Some 42))])
     = Inr (''{'' @ [CHR 0x22] @ ''name'' @ [CHR 0x22] @ '':'' @ [CHR 0x22] @ ''Widget''
            @ [CHR 0x22] @ '','' @ [CHR 0x22] @ ''qty'' @ [CHR 0x22] @ '':42}'')
   \<and> cellText intOps (JArr [JNum (Some (- 7)), JNull, JBool True]) = Inr ''[-7,null,true]''
   \<and> cellText intOps JNull = Inr []
   \<and> cellText intOps (JNum (Some 42)) = Inr ''42''"
  using C8_cell_text [of intOps "[(''name'', JStr ''Widget''), (''qty'', JNum (Some 42))]"
      "[JNum (Some (- 7)), JNull, JBool True]" "''x''" "Some 42" True]
  by (simp add: intOps_def showInt_def ownKeys_def firstSeen_def arrayIndex_def digitVal_def
      lookup_def quoteJSON_def escapeChar_def)

text \<open>
  C6. A table whose row source is an array of \<open>M\<close> rows: with \<open>M > 10\<close> the body has
  exactly the first ten rows and the caption carries \<open>M\<close> (\<^verbatim>\<open>Showing 10 of M records\<close>);
  with \<open>0 < M \<le> 10\<close> the body has all \<open>M\<close> rows and there is no caption; with no row
  there is no table, only the notice that no data is available.
\<close>

theorem C6_table_row_cap:
  assumes "tableDataOf ops data = Inr (JArr rows)" and "renderTable ops data = Inr el"
  shows "(rows = [] \<longrightarrow> el = Typography noDataNotice)
         \<and> (rows \<noteq> [] \<longrightarrow>
              (\<exists>columns header body.
                 columnsOf ops data (JArr rows) = Inr columns
                 \<and> el = TableContainer header body
                          (if 10 < length rows then Some (length rows) else None)
                 \<and> length body = min 10 (length rows)
                 \<and> (\<forall>i < length body.
                        mapColumns (bodyCell ops (rows ! i)) columns = Inr (body ! i))))"
proof (cases "rows = []")
  case True
  with assms show ?thesis by (simp add: renderTable_def bindE_Inr)
next
  case False
  with assms obtain columns header body where
    cols: "columnsOf ops data (JArr rows) = Inr columns"
    and hdr: "mapColumns (headerCell ops) columns = Inr header"
    and bdy: "mapE (\<lambda>row. mapColumns (bodyCell ops row) columns) (take 10 rows) = Inr body"
    and el: "el = TableContainer header body (caption (JArr rows))"
    by (auto simp: renderTable_def bindE_Inr bindE_eq_Inr)
  from mapE_Inr [OF bdy] have len: "length body = min 10 (length rows)"
    and nth: "\<forall>i < length (take 10 rows).
                 mapColumns (bodyCell ops (take 10 rows ! i)) columns = Inr (body ! i)"
    by (simp_all add: min.commute)
  have "\<forall>i < length body. mapColumns (bodyCell ops (rows ! i)) columns = Inr (body ! i)"
    using nth len by simp
  with cols el len False show ?thesis by simp
qed

lemma widgets_cell: "mapColumns (bodyCell intOps widgetRow) (JArr [JStr ''name'', JStr ''qty''])
   = Inr [''Widget'', ''42'']"
  by (simp add: eval_defs widgetRow_def)

lemma mapE_replicate: "f x = Inr y \<Longrightarrow> mapE f (replicate n x) = Inr (replicate n y)"
  by (induction n) (simp_all add: bindE_def)

theorem C6_table_row_cap_witness:
  "tableDataOf intOps (widgets 25) = Inr (JArr (replicate 25 widgetRow))
   \<and> renderTable intOps (widgets 25)
       = Inr (TableContainer [JStr ''name'', JStr ''qty'']
                (replicate 10 [''Widget'', ''42'']) (Some 25))
   \<and> (\<exists>columns.
         columnsOf intOps (widgets 25) (JArr (replicate 25 widgetRow)) = Inr columns)"
proof -
  have td: "tableDataOf intOps (widgets 25) = Inr (JArr (replicate 25 widgetRow))"
    by (simp add: eval_defs widgets_def)
  have cols: "columnsOf intOps (widgets 25) (JArr (replicate 25 widgetRow))
                = Inr (JArr [JStr ''name'', JStr ''qty''])"
    by (simp add: eval_defs widgets_def widgetRow_def)
  have hdr: "mapColumns (headerCell intOps) (JArr [JStr ''name'', JStr ''qty''])
                = Inr [JStr ''name'', JStr ''qty'']"
    by (simp add: eval_defs)
  have bdy: "bodyRows intOps (JArr [JStr ''name'', JStr ''qty'']) (JArr (replicate 25 widgetRow))
                = Inr (replicate 10 [''Widget'', ''42''])"
    using mapE_replicate [of "\<lambda>row. mapColumns (bodyCell intOps row)
                                       (JArr [JStr ''name'', JStr ''qty''])"
                             widgetRow "[''Widget'', ''42'']" 10, OF widgets_cell]
    by (simp add: min_def)
  have rt: "renderTable intOps (widgets 25)
       = Inr (TableContainer [JStr ''name'', JStr ''qty'']
                (replicate 10 [''Widget'', ''42'']) (Some 25))"
    by (simp add: renderTable_def td cols hdr bdy bindE_Inr
        del: mapColumns.simps mapE.simps bodyRows.simps)
  show ?thesis
    using C6_table_row_cap [OF td rt] td rt by auto
qed

text \<open>
  A first row with a key that is an array index: \<^verbatim>\<open>Object.keys\<close> lists \<^verbatim>\<open>1\<close> before
  \<^verbatim>\<open>b\<close>, though \<^verbatim>\<open>b\<close> was seen first.
\<close>

theorem C7_first_seen_order_counterexample:
  "columnsOf intOps (JObj [(''data'', JArr [JObj [(''b'', JNum (Some 1)), (''1'', JNum (Some 2))]])])
       (JArr [JObj [(''b'', JNum (Some 1)), (''1'', JNum (Some 2))]])
     = Inr (JArr [JStr ''1'', JStr ''b''])
   \<and> firstSeen (map fst [(''b'', JNum (Some (1::int))), (''1'', JNum (Some 2))]) = [''b'', ''1'']"
  by (simp add: eval_defs)

text \<open>
  C7. The columns of the table are the explicitly supplied column list when there is one.
  Otherwise they are the own keys of the first row, as \<^verbatim>\<open>Object.keys\<close> lists them: keys
  that are array indices come first, in ascending numeric order, and the other keys
  follow in first-seen order; so a first row none of whose keys is an array index gives
  its keys in first-seen order. Inferring from an empty row set gives no column.
\<close>

theorem C7_columns:
  assumes "\<not> nullish data"
  shows "(truthy ops (optP ops (own ops data ''chart_data'') ''columns'') \<longrightarrow>
            columnsOf ops data tableData
              = Inr (optP ops (own ops data ''chart_data'') ''columns''))
         \<and> (\<not> truthy ops (optP ops (own ops data ''chart_data'') ''columns'') \<longrightarrow>
              columnsOf ops data (JArr (JObj kvs # rows)) = Inr (JArr (map JStr (ownKeys kvs)))
              \<and> columnsOf ops data (JArr []) = Inr (JArr []))
         \<and> ownKeys kvs
             = sort_key (\<lambda>k. case arrayIndex k of None \<Rightarrow> 0 | Some i \<Rightarrow> i)
                 (filter (\<lambda>k. arrayIndex k \<noteq> None) (firstSeen (map fst kvs)))
               @ filter (\<lambda>k. arrayIndex k = None) (firstSeen (map fst kvs))
         \<and> ((\<forall>k \<in> fst ` set kvs. arrayIndex k = None) \<longrightarrow>
              ownKeys kvs = firstSeen (map fst kvs))"
proof (intro conjI impI)
  assume "truthy ops (optP ops (own ops data ''chart_data'') ''columns'')"
  with assms show "columnsOf ops data tableData
      = Inr (optP ops (own ops data ''chart_data'') ''columns'')"
    by (simp add: columnsOf_def getP_def orE_def bindE_def)
next
  assume "\<not> truthy ops (optP ops (own ops data ''chart_data'') ''columns'')"
  with assms show "columnsOf ops data (JArr (JObj kvs # rows)) = Inr (JArr (map JStr (ownKeys kvs)))"
    by (simp add: columnsOf_def getP_def orE_def bindE_def arrayIndex_def digitVal_def)
next
  assume "\<not> truthy ops (optP ops (own ops data ''chart_data'') ''columns'')"
  with assms show "columnsOf ops data (JArr []) = Inr (JArr [])"
    by (simp add: columnsOf_def getP_def orE_def bindE_def)
next
  show "ownKeys kvs
             = sort_key (\<lambda>k. case arrayIndex k of None \<Rightarrow> 0 | Some i \<Rightarrow> i)
                 (filter (\<lambda>k. arrayIndex k \<noteq> None) (firstSeen (map fst kvs)))
               @ filter (\<lambda>k. arrayIndex k = None) (firstSeen (map fst kvs))"
    by (simp add: ownKeys_def Let_def)
next
  assume none: "\<forall>k \<in> fst ` set kvs. arrayIndex k = None"
  have "set (firstSeen (map fst kvs)) = fst ` set kvs"
    by (simp add: firstSeen_def)
  with none have "\<forall>k \<in> set (firstSeen (map fst kvs)). arrayIndex k = None" by simp
  then have "filter (\<lambda>k. arrayIndex k \<noteq> None) (firstSeen (map fst kvs)) = []"
    and "filter (\<lambda>k. arrayIndex k = None) (firstSeen (map fst kvs)) = firstSeen (map fst kvs)"
    by (simp_all add: filter_empty_conv filter_id_conv)
  then show "ownKeys kvs = firstSeen (map fst kvs)"
    by (simp add: ownKeys_def Let_def)
qed

theorem C7_columns_witness:
  "columnsOf intOps (widgets 1) (JArr [widgetRow]) = Inr (JArr [JStr ''name'', JStr ''qty''])
   \<and> columnsOf intOps (widgets 0) (JArr []) = Inr (JArr [])
   \<and> columnsOf intOps (JObj [(''chart_data'', JObj [(''columns'', JArr [JStr ''qty''])])])
        (JArr [widgetRow]) = Inr (JArr [JStr ''qty''])"
proof -
  have d1: "\<not> nullish (widgets 1)" and d0: "\<not> nullish (widgets 0)"
    and d2: "\<not> nullish (JObj [(''chart_data'', JObj [(''columns'', JArr [JStr ''qty''])])]
               :: int option jsval)"
    by (simp_all add: widgets_def)
  have none: "\<forall>k \<in> fst ` set [(''name'', JStr ''Widget''), (''qty'', JNum (Some (42::int)))].
                arrayIndex k = None"
    by (simp add: arrayIndex_def digitVal_def)
  have keys: "ownKeys [(''name'', JStr ''Widget''), (''qty'', JNum (Some (42::int)))]
                = [''name'', ''qty'']"
    using C7_columns [OF d1, of intOps "JArr []"
        "[(''name'', JStr ''Widget''), (''qty'', JNum (Some 42))]" "[]"] none
    by (simp add: firstSeen_def)
  have a: "columnsOf intOps (widgets 1) (JArr [widgetRow]) = Inr (JArr [JStr ''name'', JStr ''qty''])"
    using C7_columns [OF d1, of intOps "JArr []"
        "[(''name'', JStr ''Widget''), (''qty'', JNum (Some 42))]" "[]"] keys
    by (simp add: widgets_def widgetRow_def optP_def lookup_def)
  have b: "columnsOf intOps (widgets 0) (JArr []) = Inr (JArr [])"
    using C7_columns [OF d0, of intOps "JArr []" "[]" "[]"]
    by (simp add: widgets_def optP_def lookup_def)
  have c: "columnsOf intOps (JObj [(''chart_data'', JObj [(''columns'', JArr [JStr ''qty''])])])
        (JArr [widgetRow]) = Inr (JArr [JStr ''qty''])"
    using C7_columns [OF d2, of intOps "JArr [widgetRow]" "[]" "[]"]
    by (simp add: optP_def lookup_def)
  from a b c show ?thesis by blast
qed


section \<open>Properties of the dispatch\<close>

lemma truthy_not_nullish: "truthy ops v \<Longrightarrow> \<not> nullish v"
  by (cases v) simp_all

lemma hasChartData_value:
  assumes "\<not> nullish data"
  shows "hasChartData ops data =
     Inr (let c = own ops data ''chart_data''; d = own ops c ''data''
          in if \<not> truthy ops c then c
             else if \<not> truthy ops d then d
             else if \<not> truthy ops (own ops d ''labels'') then own ops d ''labels''
             else own ops d ''datasets'')"
  using assms
  by (auto simp: hasChartData_def andE_def getP_def bindE_def Let_def dest: truthy_not_nullish)

lemma hasChartData_truthy:
  assumes "hasChartData ops data = Inr h" and "truthy ops h"
  shows "\<not> nullish data
         \<and> truthy ops (own ops data ''chart_data'')
         \<and> truthy ops (own ops (own ops data ''chart_data'') ''data'')
         \<and> truthy ops (own ops (own ops (own ops data ''chart_data'') ''data'') ''labels'')
         \<and> h = own ops (own ops (own ops data ''chart_data'') ''data'') ''datasets''"
proof -
  have nn: "\<not> nullish data"
    using assms(1) by (auto simp: hasChartData_def andE_def getP_def bindE_def)
  from hasChartData_value [OF nn, of ops] assms nn show ?thesis
    by (auto simp: Let_def split: if_splits)
qed

lemma renderChartOf_value:
  assumes "hasChartData ops data = Inr h" and "truthy ops h"
  shows "renderChartOf kind ops data =
     Inr (Chart kind
            (own ops (own ops (own ops data ''chart_data'') ''data'') ''labels'')
            h
            (let text = optP ops (optP ops (optP ops
                          (own ops (own ops data ''chart_data'') ''options'')
                          ''plugins'') ''title'') ''text''
             in if truthy ops text then text else JStr (chartTitle kind)))"
  using hasChartData_truthy [OF assms]
  by (auto simp: renderChartOf_def getP_def bindE_def Let_def dest: truthy_not_nullish)

subsection \<open>A row source that is not an array\<close>

text \<open>
  \<^verbatim>\<open>renderTable\<close> takes \<^verbatim>\<open>data.chart_data?.data || data.data\<close> as the rows and calls
  \<^verbatim>\<open>slice\<close> and \<^verbatim>\<open>map\<close> on it without testing that it is an array. When it is any
  other value the render throws, unless that value has a \<^verbatim>\<open>length\<close> of 0 and the
  no-data notice is returned first.
\<close>

lemma Inl_TypeError: "(m :: error + 'a) = Inl e \<Longrightarrow> m = Inl TypeError"
  by (cases e) simp

lemma renderTable_not_array:
  assumes td: "tableDataOf ops data = Inr td" and na: "\<forall>rows. td \<noteq> JArr rows"
  shows "renderTable ops data = Inl TypeError
         \<or> renderTable ops data = Inr (Typography noDataNotice)"
proof -
  have body: "bodyRows ops columns td = Inl TypeError" for columns
    using na by (cases td) simp_all
  show ?thesis
  proof (cases "if \<not> truthy ops td then Inr True else lengthIsZero ops td")
    case (Inl e)
    then have "renderTable ops data = Inl e"
      by (simp add: renderTable_def td bindE_def)
    then have "renderTable ops data = Inl TypeError" by (rule Inl_TypeError)
    then show ?thesis by simp
  next
    case empty: (Inr b)
    show ?thesis
    proof (cases b)
      case True
      with empty show ?thesis by (simp add: renderTable_def td bindE_def)
    next
      case False
      have "renderTable ops data = Inl TypeError"
      proof (cases "columnsOf ops data td")
        case (Inl e)
        with empty False have "renderTable ops data = Inl e"
          by (simp add: renderTable_def td bindE_def)
        then show ?thesis by (rule Inl_TypeError)
      next
        case cols: (Inr columns)
        show ?thesis
        proof (cases "mapColumns (headerCell ops) columns")
          case (Inl e)
          with empty False cols have "renderTable ops data = Inl e"
            by (simp add: renderTable_def td bindE_def)
          then show ?thesis by (rule Inl_TypeError)
        next
          case (Inr header)
          with empty False cols show ?thesis
            by (simp add: renderTable_def td bindE_def body)
        qed
      qed
      then show ?thesis by simp
    qed
  qed
qed

text \<open>
  A payload that passes the chart check has an object, not an array of rows, as its
  \<^verbatim>\<open>chart_data.data\<close>, and that object is the row source \<^verbatim>\<open>renderTable\<close> takes.
\<close>

lemma own_labels_object:
  assumes "truthy ops (own ops d ''labels'')"
  shows "\<exists>kvs. d = JObj kvs"
  using assms by (cases d) (simp_all add: arrayIndex_def digitVal_def)

lemma renderTable_chart_shaped:
  assumes "hasChartData ops data = Inr h" and "truthy ops h"
  shows "renderTable ops data = Inl TypeError
         \<or> renderTable ops data = Inr (Typography noDataNotice)"
proof -
  from hasChartData_truthy [OF assms]
  have nn: "\<not> nullish data"
    and c: "truthy ops (own ops data ''chart_data'')"
    and d: "truthy ops (own ops (own ops data ''chart_data'') ''data'')"
    and l: "truthy ops (own ops (own ops (own ops data ''chart_data'') ''data'') ''labels'')"
    by simp_all
  from own_labels_object [OF l] obtain kvs
    where kvs: "own ops (own ops data ''chart_data'') ''data'' = JObj kvs" by blast
  have td: "tableDataOf ops data = Inr (JObj kvs)"
    using nn c d kvs
    by (auto simp: tableDataOf_def orE_def getP_def optP_def bindE_def dest: truthy_not_nullish)
  show ?thesis
    by (rule renderTable_not_array [OF td]) simp
qed

text \<open>
  C5. When the chart data passes the check (\<^verbatim>\<open>hasChartData\<close> is truthy),
  \<^verbatim>\<open>renderChart\<close> renders a line, bar or pie chart of the payload's labels and datasets
  for the visualization type of that name. For \<^verbatim>\<open>table\<close> and for every other value, a
  missing one included, it calls \<^verbatim>\<open>renderTable\<close>, and no table comes of it: the row
  source is the object \<^verbatim>\<open>chart_data.data\<close>, so the call throws a \<^verbatim>\<open>TypeError\<close>, or
  returns the no-data notice when that object has a \<^verbatim>\<open>length\<close> of 0.
\<close>

theorem C5_chart_modes_and_table_failure:
  assumes "hasChartData ops data = Inr h" and "truthy ops h"
  shows "(visualizationType = JStr ''line'' \<longrightarrow>
            (\<exists>title. renderChart ops data visualizationType h
                        = Inr (Chart Line
                                 (own ops (own ops (own ops data ''chart_data'') ''data'') ''labels'')
                                 h title)))
         \<and> (visualizationType = JStr ''bar'' \<longrightarrow>
            (\<exists>title. renderChart ops data visualizationType h
                        = Inr (Chart Bar
                                 (own ops (own ops (own ops data ''chart_data'') ''data'') ''labels'')
                                 h title)))
         \<and> (visualizationType = JStr ''pie'' \<longrightarrow>
            (\<exists>title. renderChart ops data visualizationType h
                        = Inr (Chart Pie
                                 (own ops (own ops (own ops data ''chart_data'') ''data'') ''labels'')
                                 h title)))
         \<and> (visualizationType \<notin> {JStr ''line'', JStr ''bar'', JStr ''pie''} \<longrightarrow>
            renderChart ops data visualizationType h = Inl TypeError
            \<or> renderChart ops data visualizationType h = Inr (Typography noDataNotice))"
  using assms(2) renderChartOf_value [OF assms] renderTable_chart_shaped [OF assms]
  by (auto simp: renderChart_def renderLineChart_def renderBarChart_def renderPieChart_def)

text \<open>
  The payload \<open>chartPayload\<close> passes the check. Asked for as a bar chart it is one; asked
  for as a table, or with no visualization type, the render throws.
\<close>

theorem C5_chart_modes_and_table_failure_witness:
  "hasChartData intOps chartPayload
     = Inr (JArr [JObj [(''label'', JStr ''Sales''),
                        (''data'', JArr [JNum (Some 1), JNum (Some 2)])]])
   \<and> (\<exists>title.
         renderChart intOps chartPayload (JStr ''bar'')
           (JArr [JObj [(''label'', JStr ''Sales''),
                        (''data'', JArr [JNum (Some 1), JNum (Some 2)])]])
         = Inr (Chart Bar (JArr [JStr ''Jan'', JStr ''Feb''])
                  (JArr [JObj [(''label'', JStr ''Sales''),
                               (''data'', JArr [JNum (Some 1), JNum (Some 2)])]]) title))
   \<and> renderChart intOps chartPayload (JStr ''table'')
         (JArr [JObj [(''label'', JStr ''Sales''),
                      (''data'', JArr [JNum (Some 1), JNum (Some 2)])]])
       = Inl TypeError
   \<and> renderChart intOps chartPayload JUndefined
         (JArr [JObj [(''label'', JStr ''Sales''),
                      (''data'', JArr [JNum (Some 1), JNum (Some 2)])]])
       = Inl TypeError
   \<and> ChartRenderer intOps chartPayload (JStr ''table'') (JBool False) = Inl TypeError"
proof -
  have h: "hasChartData intOps chartPayload
     = Inr (JArr [JObj [(''label'', JStr ''Sales''),
                        (''data'', JArr [JNum (Some 1), JNum (Some 2)])]])"
    by (simp add: hasChartData_def andE_def getP_def bindE_def lookup_def chartPayload_def)
  have t: "truthy intOps (JArr [JObj [(''label'', JStr ''Sales''),
                        (''data'', JArr [JNum (Some 1), JNum (Some 2)])]])"
    by simp
  have notice: "renderTable intOps chartPayload \<noteq> Inr (Typography noDataNotice)"
    by (simp add: chartPayload_def eval_defs)
  have table: "renderChart intOps chartPayload (JStr ''table'')
         (JArr [JObj [(''label'', JStr ''Sales''),
                      (''data'', JArr [JNum (Some 1), JNum (Some 2)])]])
       = Inl TypeError"
    using C5_chart_modes_and_table_failure [OF h t, of "JStr ''table''"] notice
    by (simp add: renderChart_def)
  have missing: "renderChart intOps chartPayload JUndefined
         (JArr [JObj [(''label'', JStr ''Sales''),
                      (''data'', JArr [JNum (Some 1), JNum (Some 2)])]])
       = Inl TypeError"
    using C5_chart_modes_and_table_failure [OF h t, of JUndefined] notice
    by (simp add: renderChart_def)
  have bar: "\<exists>title.
         renderChart intOps chartPayload (JStr ''bar'')
           (JArr [JObj [(''label'', JStr ''Sales''),
                        (''data'', JArr [JNum (Some 1), JNum (Some 2)])]])
         = Inr (Chart Bar (JArr [JStr ''Jan'', JStr ''Feb''])
                  (JArr [JObj [(''label'', JStr ''Sales''),
                               (''data'', JArr [JNum (Some 1), JNum (Some 2)])]]) title)"
    using C5_chart_modes_and_table_failure [OF h t, of "JStr ''bar''"]
    by (simp add: chartPayload_def lookup_def)
  have data: "truthy intOps chartPayload"
    by (simp add: chartPayload_def)
  have whole: "ChartRenderer intOps chartPayload (JStr ''table'') (JBool False) = Inl TypeError"
    by (simp add: ChartRenderer_def data h table bindE_def)
  from h bar table missing whole show ?thesis by blast
qed

subsection \<open>A row source that is an array\<close>

lemma tableDataOf_not_nullish: "tableDataOf ops data = Inr td \<Longrightarrow> \<not> nullish data"
  by (auto simp: tableDataOf_def orE_def getP_def bindE_def)

lemma headerCell_total: "\<not> nullish c \<Longrightarrow> \<exists>hd. headerCell ops c = Inr hd"
  by (simp add: headerCell_def orE_def getP_def bindE_def)

lemma bodyCell_total:
  assumes "\<not> nullish row" and "\<not> nullish c"
    and "\<exists>k. toStringV ops (if truthy ops (own ops c ''field'')
                              then own ops c ''field'' else c) = Inr k"
  shows "\<exists>s. bodyCell ops row c = Inr s"
proof -
  from assms(3) obtain k
    where k: "toStringV ops (if truthy ops (own ops c ''field'')
                             then own ops c ''field'' else c) = Inr k" by blast
  show ?thesis
    using assms(1,2) k cellText_total [of ops "own ops row k"] cellText_total [of ops JUndefined]
    by (auto simp: bodyCell_def orE_def getP_def bindE_def split: option.splits if_splits)
qed

lemma objectKeys_total: "\<not> nullish v \<Longrightarrow> \<exists>ks. objectKeys v = Inr ks"
  by (cases v) simp_all

lemma string_column:
  "\<not> nullish (JStr k :: 'n jsval)
   \<and> (\<exists>k'. toStringV ops (if truthy ops (own ops (JStr k) ''field'')
                            then own ops (JStr k) ''field'' else JStr k) = Inr k')"
  by (simp add: arrayIndex_def digitVal_def)

text \<open>
  The table is rendered, and nothing is thrown, when the row source is an array whose
  first ten rows are not \<^verbatim>\<open>null\<close> or \<^verbatim>\<open>undefined\<close> and the columns are inferred, or are
  an array of columns each a string or an object (with or without \<^verbatim>\<open>field\<close> and
  \<^verbatim>\<open>headerName\<close>) whose key has a string form.
\<close>

lemma columnsOf_usable:
  assumes "\<not> nullish data" and "rows \<noteq> []" and "\<not> nullish (hd rows)"
    and "\<not> truthy ops (optP ops (own ops data ''chart_data'') ''columns'')
         \<or> (\<exists>cs. optP ops (own ops data ''chart_data'') ''columns'' = JArr cs
               \<and> (\<forall>c \<in> set cs. \<not> nullish c
                     \<and> (\<exists>k. toStringV ops (if truthy ops (own ops c ''field'')
                                            then own ops c ''field'' else c) = Inr k)))"
  shows "\<exists>cs. columnsOf ops data (JArr rows) = Inr (JArr cs)
           \<and> (\<forall>c \<in> set cs. \<not> nullish c
                 \<and> (\<exists>k. toStringV ops (if truthy ops (own ops c ''field'')
                                        then own ops c ''field'' else c) = Inr k))"
proof (cases "truthy ops (optP ops (own ops data ''chart_data'') ''columns'')")
  case True
  with assms(4) obtain cs
    where cs: "optP ops (own ops data ''chart_data'') ''columns'' = JArr cs"
      and ok: "\<forall>c \<in> set cs. \<not> nullish c
                 \<and> (\<exists>k. toStringV ops (if truthy ops (own ops c ''field'')
                                        then own ops c ''field'' else c) = Inr k)"
    by blast
  from cs assms(1) have "columnsOf ops data (JArr rows) = Inr (JArr cs)"
    by (simp add: columnsOf_def orE_def getP_def bindE_def)
  with ok show ?thesis by blast
next
  case False
  from assms(2) obtain r rs where rows: "rows = r # rs" by (cases rows) auto
  with assms(3) obtain ks where "objectKeys r = Inr ks"
    using objectKeys_total [of r] by auto
  with False assms(1) rows
  have "columnsOf ops data (JArr rows) = Inr (JArr (map JStr ks))"
    by (simp add: columnsOf_def orE_def getP_def bindE_def arrayIndex_def digitVal_def)
  moreover have "\<forall>c \<in> set (map JStr ks). \<not> nullish c
                 \<and> (\<exists>k. toStringV ops (if truthy ops (own ops c ''field'')
                                        then own ops c ''field'' else c) = Inr k)"
    using string_column [of _ ops] by auto
  ultimately show ?thesis by blast
qed

lemma renderTable_total:
  assumes td: "tableDataOf ops data = Inr (JArr rows)"
    and rows: "\<forall>r \<in> set (take 10 rows). \<not> nullish r"
    and cols: "\<not> truthy ops (optP ops (own ops data ''chart_data'') ''columns'')
         \<or> (\<exists>cs. optP ops (own ops data ''chart_data'') ''columns'' = JArr cs
               \<and> (\<forall>c \<in> set cs. \<not> nullish c
                     \<and> (\<exists>k. toStringV ops (if truthy ops (own ops c ''field'')
                                            then own ops c ''field'' else c) = Inr k)))"
  shows "\<exists>el. renderTable ops data = Inr el"
proof (cases "rows = []")
  case True
  with td show ?thesis by (simp add: renderTable_def bindE_Inr)
next
  case False
  then have "hd rows \<in> set (take 10 rows)" by (cases rows) simp_all
  with rows have "\<not> nullish (hd rows)" by blast
  from columnsOf_usable [OF tableDataOf_not_nullish [OF td] False this cols]
  obtain cs where cs: "columnsOf ops data (JArr rows) = Inr (JArr cs)"
    and ok: "\<forall>c \<in> set cs. \<not> nullish c
                 \<and> (\<exists>k. toStringV ops (if truthy ops (own ops c ''field'')
                                        then own ops c ''field'' else c) = Inr k)"
    by blast
  have "\<exists>hs. mapE (headerCell ops) cs = Inr hs"
    by (rule mapE_total) (use ok headerCell_total in blast)
  then obtain hs where hs: "mapColumns (headerCell ops) (JArr cs) = Inr hs"
    by auto
  have row: "\<exists>cells. mapColumns (bodyCell ops r) (JArr cs) = Inr cells"
    if "\<not> nullish r" for r
  proof -
    have "\<exists>cells. mapE (bodyCell ops r) cs = Inr cells"
      by (rule mapE_total) (use ok that bodyCell_total in blast)
    then show ?thesis by simp
  qed
  have "\<exists>body. mapE (\<lambda>r. mapColumns (bodyCell ops r) (JArr cs)) (take 10 rows) = Inr body"
    by (rule mapE_total) (use rows row in blast)
  then obtain body where body: "bodyRows ops (JArr cs) (JArr rows) = Inr body"
    by auto
  from False td cs hs body show ?thesis
    by (simp add: renderTable_def bindE_Inr
        del: mapColumns.simps mapE.simps bodyRows.simps)
qed

text \<open>
  C4. For a payload without proper chart data (\<^verbatim>\<open>hasChartData\<close> falsy), which the check
  itself computes without throwing: a visualization type other than \<^verbatim>\<open>table\<close> gives the
  notice that no chart can be generated, and nothing is thrown. For \<^verbatim>\<open>table\<close> the
  render is \<^verbatim>\<open>renderTable\<close>'s, and that throws a \<^verbatim>\<open>TypeError\<close> whenever the row source
  is not an array (and has no \<^verbatim>\<open>length\<close> of 0): the table fallback does raise.
\<close>

theorem C4_table_fallback_raises:
  assumes "truthy ops data"
  shows "\<exists>h. hasChartData ops data = Inr h
           \<and> (\<not> truthy ops h \<longrightarrow>
                (visualizationType \<noteq> JStr ''table'' \<longrightarrow>
                   renderChart ops data visualizationType h = Inr (Typography unableNotice))
              \<and> (visualizationType = JStr ''table'' \<longrightarrow>
                   renderChart ops data visualizationType h = renderTable ops data
                   \<and> (\<forall>td. tableDataOf ops data = Inr td \<and> (\<forall>rows. td \<noteq> JArr rows) \<longrightarrow>
                          renderTable ops data = Inl TypeError
                          \<or> renderTable ops data = Inr (Typography noDataNotice))))"
proof -
  from assms have "\<not> nullish data" by (rule truthy_not_nullish)
  from hasChartData_value [OF this, of ops] obtain h
    where h: "hasChartData ops data = Inr h" by blast
  have "renderTable ops data = Inl TypeError
        \<or> renderTable ops data = Inr (Typography noDataNotice)"
    if "tableDataOf ops data = Inr td" and "\<forall>rows. td \<noteq> JArr rows" for td
    using that by (rule renderTable_not_array)
  with h show ?thesis
    by (auto simp: renderChart_def)
qed

text \<open>
  The payload \<open>noDatasets\<close> has labels and no datasets. Asked for as a line chart it
  gives the notice; asked for as a table, the row source is the object holding the
  labels, and the render throws out of \<^verbatim>\<open>ChartRenderer\<close>.
\<close>

theorem C4_table_fallback_raises_witness:
  "truthy intOps noDatasets
   \<and> hasChartData intOps noDatasets = Inr JUndefined
   \<and> renderChart intOps noDatasets (JStr ''line'') JUndefined = Inr (Typography unableNotice)
   \<and> tableDataOf intOps noDatasets = Inr (JObj [(''labels'', JArr [JStr ''Jan''])])
   \<and> renderChart intOps noDatasets (JStr ''table'') JUndefined = Inl TypeError
   \<and> ChartRenderer intOps noDatasets (JStr ''table'') (JBool False) = Inl TypeError"
proof -
  have data: "truthy intOps noDatasets"
    by (simp add: noDatasets_def)
  have h: "hasChartData intOps noDatasets = Inr JUndefined"
    by (simp add: noDatasets_def hasChartData_def eval_defs)
  have td: "tableDataOf intOps noDatasets = Inr (JObj [(''labels'', JArr [JStr ''Jan''])])"
    by (simp add: noDatasets_def eval_defs)
  have notice: "renderTable intOps noDatasets \<noteq> Inr (Typography noDataNotice)"
    by (simp add: noDatasets_def eval_defs)
  have line: "renderChart intOps noDatasets (JStr ''line'') JUndefined
                = Inr (Typography unableNotice)"
    using C4_table_fallback_raises [OF data, of "JStr ''line''"] h by auto
  have table: "renderChart intOps noDatasets (JStr ''table'') JUndefined = Inl TypeError"
    using C4_table_fallback_raises [OF data, of "JStr ''table''"] h td notice by auto
  have whole: "ChartRenderer intOps noDatasets (JStr ''table'') (JBool False) = Inl TypeError"
    by (simp add: ChartRenderer_def data h table bindE_def)
  from data h line td table whole show ?thesis by blast
qed

text \<open>
  The same payload with rows in place of the labels object is drawn as a table, for
  string columns and for columns given as objects alike.
\<close>

lemma table_fallback_renders:
  "renderChart intOps (widgets 1) (JStr ''table'') JUndefined
     = Inr (TableContainer [JStr ''name'', JStr ''qty''] [[''Widget'', ''42'']] None)
   \<and> renderTable intOps
         (JObj [(''chart_data'',
            JObj [(''data'', JArr [widgetRow]),
                  (''columns'', JArr [JObj [(''field'', JStr ''name''),
                                            (''headerName'', JStr ''Product'')]])])])
     = Inr (TableContainer [JStr ''Product''] [[''Widget'']] None)"
  by (simp add: renderChart_def widgets_def widgetRow_def eval_defs)

text \<open>
  A column named after a member of \<^verbatim>\<open>Object.prototype\<close> that the row does not have:
  the cell shows the inherited member, not an empty text.
\<close>

lemma inherited_cell:
  "bodyCell intOps widgetRow (JStr ''constructor'') = Inr ''function Object() { [native code] }''
   \<and> bodyCell intOps widgetRow (JStr ''price'') = Inr []"
  by (simp add: widgetRow_def eval_defs)

end
